theory Spec2Isabelle
  imports Complex_Main
begin

section \<open>Outcomes of a method call\<close>

text \<open>
  The module \<^verbatim>\<open>musemonitor/online.py\<close> is embedded method by method. A method runs on an
  object whose attributes may not have been assigned yet, so every attribute is an
  \<open>option\<close> and reading an unassigned one raises \<open>AttributeError\<close>. A call either returns,
  raises, or blocks for ever on a \<^verbatim>\<open>threading.Lock\<close> that is already held; in each case
  the object is left in some state, which is returned beside the outcome.
\<close>

datatype error =
    AttributeError | NotImplementedError | TypeError | ValueError | IndexError
  | ZeroDivisionError | OverflowError | OSError | SerialException

datatype 'a outcome = Returns 'a | Raises error | Blocks

definition then_do ::
  "'a outcome \<times> 's \<Rightarrow> ('a \<Rightarrow> 's \<Rightarrow> 'b outcome \<times> 's) \<Rightarrow> 'b outcome \<times> 's" where
  "then_do m f =
     (case m of
        (Returns a, s) \<Rightarrow> f a s
      | (Raises e, s) \<Rightarrow> (Raises e, s)
      | (Blocks, s) \<Rightarrow> (Blocks, s))"

section \<open>The data model\<close>

text \<open>
  One element of the structured array: the field \<^verbatim>\<open>time\<close> and the tuple of channel values
  (\<^verbatim>\<open>_dtype = [('time', 'f8'), ('channels', channels_dtype)]\<close>). The buffer stores and copies
  these numbers and never computes with them.
\<close>

type_synonym sample = "real \<times> real list"

text \<open>
  What a method does to the shared attributes, in program order. The flag of an event says
  whether \<^verbatim>\<open>_lock\<close> was held at that moment.
\<close>

datatype access =
  Acquire | Release | ReadCount | WriteCount | ReadData | WriteData | Savetxt

type_synonym event = "access \<times> bool"

text \<open>
  The attributes of a \<^verbatim>\<open>Data\<close>/\<^verbatim>\<open>TimeSeries\<close> instance. A leading underscore of the source
  is written \<open>u_\<close>. \<open>u_lock\<close> is \<open>None\<close> while the attribute is unassigned, \<open>Some True\<close> while
  the lock is held. \<open>u_dtype\<close> holds the channel names. \<open>u_file\<close> holds the lines of text written
  through the open handle, oldest first. \<open>trace\<close> is the log of accesses.
\<close>

record timeseries =
  u_lock :: "bool option"
  u_data :: "sample list option"
  u_dtype :: "string list option"
  sfreq :: "real option"
  n_samples :: "int option"
  u_count :: "int option"
  u_file :: "string list option"
  updated :: "bool option"
  metadata :: "string option option"
  trace :: "event list"

definition logged :: "access \<Rightarrow> timeseries \<Rightarrow> timeseries" where
  "logged a s = s\<lparr>trace := trace s @ [(a, u_lock s = Some True)]\<rparr>"

text \<open>An object on which no attribute has been assigned: what \<^verbatim>\<open>__init__\<close> receives.\<close>

definition fresh :: timeseries where
  "fresh = \<lparr>u_lock = None, u_data = None, u_dtype = None, sfreq = None,
            n_samples = None, u_count = None, u_file = None, updated = None,
            metadata = None, trace = []\<rparr>"

section \<open>Python and numpy expressions\<close>

text \<open>
  A slice bound \<open>i\<close> on a sequence of length \<open>len\<close>: a negative bound counts from the end
  and both are clamped to the sequence. \<open>slice_to i xs\<close> is \<^verbatim>\<open>xs[:i]\<close>, \<open>slice_from i xs\<close> is
  \<^verbatim>\<open>xs[i:]\<close>.
\<close>

definition slice_bound :: "int \<Rightarrow> nat \<Rightarrow> nat" where
  "slice_bound i len = (if i < 0 then nat (max 0 (i + int len)) else min (nat i) len)"

definition slice_to :: "int \<Rightarrow> 'a list \<Rightarrow> 'a list" where
  "slice_to i xs = take (slice_bound i (length xs)) xs"

definition slice_from :: "int \<Rightarrow> 'a list \<Rightarrow> 'a list" where
  "slice_from i xs = drop (slice_bound i (length xs)) xs"

text \<open>\<^verbatim>\<open>np.zeros((n,), dtype)\<close> for \<open>n \<ge> 0\<close>: every field of every element is zero.\<close>

definition zeros :: "nat \<Rightarrow> string list \<Rightarrow> sample list" where
  "zeros n names = replicate n (0, replicate (length names) 0)"

text \<open>\<^verbatim>\<open>int(x)\<close> of a finite float truncates towards zero.\<close>

definition py_int :: "real \<Rightarrow> int" where
  "py_int x = (if 0 \<le> x then \<lfloor>x\<rfloor> else \<lceil>x\<rceil>)"

section \<open>The lock\<close>

text \<open>
  \<^verbatim>\<open>with self._lock: body\<close>. Reading the attribute fails when it is unassigned. A
  \<^verbatim>\<open>threading.Lock\<close> is not reentrant: acquiring it while it is held blocks until somebody
  releases it, and no code of the module releases a lock that another frame holds. On the
  way out, by return or by exception, the lock is released.
\<close>

definition with_lock ::
  "(timeseries \<Rightarrow> 'a outcome \<times> timeseries) \<Rightarrow> timeseries \<Rightarrow> 'a outcome \<times> timeseries" where
  "with_lock body s =
     (case u_lock s of
        None \<Rightarrow> (Raises AttributeError, s)
      | Some True \<Rightarrow> (Blocks, s)
      | Some False \<Rightarrow>
          (case body ((logged Acquire s)\<lparr>u_lock := Some True\<rparr>) of
             (Blocks, s') \<Rightarrow> (Blocks, s')
           | (r, s') \<Rightarrow> (r, (logged Release s')\<lparr>u_lock := Some False\<rparr>)))"

section \<open>class Data\<close>

text \<open>
  \<^verbatim>\<open>Data.__init__\<close> calls \<^verbatim>\<open>self.initialize()\<close> first, which dispatches to the subclass,
  and assigns \<^verbatim>\<open>metadata\<close>, \<^verbatim>\<open>updated\<close> and \<^verbatim>\<open>_lock\<close> afterwards. The method that
  \<^verbatim>\<open>self.initialize\<close> resolves to is the first argument.
\<close>

definition Data_init ::
  "(timeseries \<Rightarrow> unit outcome \<times> timeseries) \<Rightarrow> string option \<Rightarrow> timeseries
     \<Rightarrow> unit outcome \<times> timeseries" where
  "Data_init init md s =
     then_do (init s) (\<lambda>_ s.
       (Returns (), s\<lparr>metadata := Some md, updated := Some False, u_lock := Some False\<rparr>))"

text \<open>The property \<^verbatim>\<open>data\<close>: a copy of \<^verbatim>\<open>_data\<close> taken under the lock.\<close>

definition data :: "timeseries \<Rightarrow> sample list outcome \<times> timeseries" where
  "data s =
     (case with_lock (\<lambda>s. case u_data s of
                             None \<Rightarrow> (Raises AttributeError, s)
                           | Some d \<Rightarrow> (Returns d, logged ReadData s)) s of
        (Raises AttributeError, s') \<Rightarrow> (Raises NotImplementedError, s')
      | r \<Rightarrow> r)"

text \<open>\<^verbatim>\<open>Data.initialize\<close> and \<^verbatim>\<open>Data.update\<close> of the parent class.\<close>

definition Data_initialize :: "timeseries \<Rightarrow> unit outcome \<times> timeseries" where
  "Data_initialize s = (Raises NotImplementedError, s)"

definition Data_update :: "timeseries \<Rightarrow> unit outcome \<times> timeseries" where
  "Data_update s = (Raises NotImplementedError, s)"

section \<open>class TimeSeries\<close>

definition initialize :: "timeseries \<Rightarrow> unit outcome \<times> timeseries" where
  "initialize =
     with_lock (\<lambda>s.
       case n_samples s of
         None \<Rightarrow> (Raises AttributeError, s)
       | Some n \<Rightarrow>
           (case u_dtype s of
              None \<Rightarrow> (Raises AttributeError, s)
            | Some names \<Rightarrow>
                if n < 0 then (Raises ValueError, s)
                else (Returns (), (logged WriteData s)\<lparr>u_data := Some (zeros (nat n) names)\<rparr>)))"

definition get_count :: "timeseries \<Rightarrow> int outcome \<times> timeseries" where
  "get_count s =
     (case u_count s of
        None \<Rightarrow> (Raises AttributeError, s)
      | Some c \<Rightarrow> (Returns c, logged ReadCount s))"

definition set_count :: "int \<Rightarrow> timeseries \<Rightarrow> timeseries" where
  "set_count c s = (logged WriteCount s)\<lparr>u_count := Some c\<rparr>"

text \<open>
  \<^verbatim>\<open>self.window = window\<close>: the class defines \<^verbatim>\<open>window\<close> as a property with a getter and
  no setter, so the assignment raises \<open>AttributeError\<close> whatever the value.
\<close>

definition set_window :: "real \<Rightarrow> timeseries \<Rightarrow> unit outcome \<times> timeseries" where
  "set_window w s = (Raises AttributeError, s)"

text \<open>
  \<^verbatim>\<open>np.dtype({'names': ch_names, 'formats': [...]})\<close> raises \<open>ValueError\<close> when a channel
  name occurs twice.
\<close>

definition channels_dtype :: "string list \<Rightarrow> string list outcome" where
  "channels_dtype ch_names = (if distinct ch_names then Returns ch_names else Raises ValueError)"

text \<open>
  The lines of \<^verbatim>\<open>TimeSeries.__init__\<close> after the call of \<^verbatim>\<open>Data.__init__\<close>. Two things
  that the source leaves to the machine and the file system are arguments:
  \<^item> \<open>fmul w sf\<close> is the binary64 product \<^verbatim>\<open>window * self.sfreq\<close>, rounded as the
    hardware rounds it, or \<open>None\<close> when it overflows to infinity, on which \<^verbatim>\<open>int\<close> raises
    \<open>OverflowError\<close>;
  \<^item> \<open>opened\<close> is what choosing the file name, creating the directory and
    \<^verbatim>\<open>open(filename, 'a')\<close> come to when \<^verbatim>\<open>record\<close> is set: the exception they raise, or
    \<open>None\<close> for a handle through which nothing has been written yet.
\<close>

definition TimeSeries_init_rest ::
  "(real \<Rightarrow> real \<Rightarrow> real option) \<Rightarrow> error option \<Rightarrow> string list \<Rightarrow> real \<Rightarrow> real \<Rightarrow> bool
     \<Rightarrow> timeseries \<Rightarrow> unit outcome \<times> timeseries" where
  "TimeSeries_init_rest fmul opened ch_names sf w record s =
     then_do (channels_dtype ch_names, s) (\<lambda>names s.
     then_do (set_window w (s\<lparr>u_dtype := Some names, sfreq := Some sf\<rparr>)) (\<lambda>_ s.
       case fmul w sf of
         None \<Rightarrow> (Raises OverflowError, s)
       | Some p \<Rightarrow>
           let s' = set_count (py_int p) (s\<lparr>n_samples := Some (py_int p)\<rparr>)
           in if record then
                (case opened of
                   Some e \<Rightarrow> (Raises e, s')
                 | None \<Rightarrow> (Returns (), s'\<lparr>u_file := Some []\<rparr>))
              else (Returns (), s')))"

definition TimeSeries_init ::
  "(real \<Rightarrow> real \<Rightarrow> real option) \<Rightarrow> error option \<Rightarrow> string list \<Rightarrow> real \<Rightarrow> real \<Rightarrow> bool
     \<Rightarrow> string option \<Rightarrow> timeseries \<Rightarrow> unit outcome \<times> timeseries" where
  "TimeSeries_init fmul opened ch_names sf w record md s =
     then_do (Data_init initialize md s) (\<lambda>_ s.
       TimeSeries_init_rest fmul opened ch_names sf w record s)"

text \<open>
  \<^verbatim>\<open>_format_samples\<close>: \<^verbatim>\<open>zip\<close> pairs the two sequences and stops at the end of the shorter
  one; \<^verbatim>\<open>np.array(..., dtype=self._dtype)\<close> rejects a row whose tuple of channel values
  does not have one value per channel.
\<close>

definition u_format_samples ::
  "real list \<Rightarrow> real list list \<Rightarrow> timeseries \<Rightarrow> sample list outcome \<times> timeseries" where
  "u_format_samples timestamps samples s =
     (let rows = zip timestamps samples in
      case u_dtype s of
        None \<Rightarrow> (Raises AttributeError, s)
      | Some names \<Rightarrow>
          if list_all (\<lambda>(t, c). length c = length names) rows then (Returns rows, s)
          else (Raises ValueError, s))"

text \<open>
  \<^verbatim>\<open>_append\<close>: inside the critical section the window is concatenated with the new rows
  and then trimmed to \<^verbatim>\<open>self.data[-self.n_samples:]\<close>, where \<^verbatim>\<open>self.data\<close> is the property
  above.
\<close>

definition u_append :: "sample list \<Rightarrow> timeseries \<Rightarrow> unit outcome \<times> timeseries" where
  "u_append new =
     with_lock (\<lambda>s.
       case u_data s of
         None \<Rightarrow> (Raises AttributeError, s)
       | Some d \<Rightarrow>
           then_do (data ((logged WriteData (logged ReadData s))\<lparr>u_data := Some (d @ new)\<rparr>)) (\<lambda>w s.
             case n_samples s of
               None \<Rightarrow> (Raises AttributeError, s)
             | Some n \<Rightarrow> (Returns (), (logged WriteData s)\<lparr>u_data := Some (slice_from (- n) w)\<rparr>)))"

text \<open>
  \<^verbatim>\<open>np.savetxt(fh, X)\<close> on a window \<open>X\<close> of the dtype \<^verbatim>\<open>_dtype\<close>, with the default format.
  For a one-dimensional structured array \<^verbatim>\<open>savetxt\<close> takes one column per top-level field,
  here two (\<^verbatim>\<open>time\<close> and \<^verbatim>\<open>channels\<close>), builds the row format \<^verbatim>\<open>'%.18e %.18e'\<close> and writes
  \<^verbatim>\<open>format % tuple(row)\<close> for each row in turn. The second component of every row is the
  nested record of channel values, which is not a number: formatting the first row raises
  \<open>TypeError\<close> before anything is written. With no row nothing is formatted and nothing is
  written; no header or footer is written either. The first argument is the text already
  in the file, the result is the text after the call.
\<close>

definition savetxt :: "string list \<Rightarrow> sample list \<Rightarrow> string list outcome" where
  "savetxt lines X = (if X = [] then Returns lines else Raises TypeError)"

text \<open>\<^verbatim>\<open>_write_to_file\<close>: the whole window goes to \<^verbatim>\<open>np.savetxt\<close> under the lock.\<close>

definition u_write_to_file :: "timeseries \<Rightarrow> unit outcome \<times> timeseries" where
  "u_write_to_file =
     with_lock (\<lambda>s.
       case u_file s of
         None \<Rightarrow> (Raises AttributeError, s)
       | Some f \<Rightarrow>
           (case u_data s of
              None \<Rightarrow> (Raises AttributeError, s)
            | Some d \<Rightarrow>
                then_do (savetxt f d, logged Savetxt (logged ReadData s)) (\<lambda>f' s.
                  (Returns (), s\<lparr>u_file := Some f'\<rparr>))))"

definition flush_and_reset :: "timeseries \<Rightarrow> unit outcome \<times> timeseries" where
  "flush_and_reset s =
     then_do (u_write_to_file s) (\<lambda>_ s.
       case n_samples s of
         None \<Rightarrow> (Raises AttributeError, s)
       | Some n \<Rightarrow> (Returns (), set_count n s))"

definition set_updated :: "timeseries \<Rightarrow> unit outcome \<times> timeseries" where
  "set_updated s =
     (case updated s of
        None \<Rightarrow> (Raises AttributeError, s)
      | Some _ \<Rightarrow> (Returns (), s\<lparr>updated := Some True\<rparr>))"

definition update ::
  "real list \<Rightarrow> real list list \<Rightarrow> timeseries \<Rightarrow> unit outcome \<times> timeseries" where
  "update timestamps samples s =
     then_do (u_format_samples timestamps samples s) (\<lambda>new s.
     then_do (get_count s) (\<lambda>c s.
     then_do (get_count (set_count (c - int (length new)) s)) (\<lambda>c1 s.
     then_do (u_append (slice_to (int (length new) + c1) new) s) (\<lambda>_ s.
     then_do (get_count s) (\<lambda>c2 s.
     then_do (if c2 < 1 then flush_and_reset s else (Returns (), s)) (\<lambda>_ s.
     then_do (u_append (slice_from (int (length new) + c1) new) s) (\<lambda>_ s.
       set_updated s)))))))"

section \<open>class LSLStreamer\<close>

text \<open>
  The attributes of the streaming thread that its loop reads: the bound buffer
  (\<^verbatim>\<open>self.data\<close>, a \<^verbatim>\<open>TimeSeries\<close>), \<^verbatim>\<open>self.dejitter\<close>, \<^verbatim>\<open>self.sfreq\<close> and
  \<^verbatim>\<open>self.proceed\<close>.
\<close>

record lslstreamer =
  lsl_data :: timeseries
  lsl_dejitter :: bool
  lsl_sfreq :: real
  lsl_proceed :: bool

text \<open>
  \<^verbatim>\<open>self.data['time']\<close> subscripts the \<^verbatim>\<open>TimeSeries\<close> object itself. Neither \<^verbatim>\<open>TimeSeries\<close>
  nor \<^verbatim>\<open>Data\<close> defines \<^verbatim>\<open>__getitem__\<close>, so Python raises \<open>TypeError\<close> for every object
  and key.
\<close>

definition getitem :: "timeseries \<Rightarrow> string \<Rightarrow> real list outcome" where
  "getitem ts key = Raises TypeError"

text \<open>\<^verbatim>\<open>xs[-1]\<close>.\<close>

definition last_item :: "'a list \<Rightarrow> 'a outcome" where
  "last_item xs = (if xs = [] then Raises IndexError else Returns (last xs))"

text \<open>
  \<^verbatim>\<open>utils.dejitter_timestamps(timestamps, sfreq, last_time)\<close> lives in another module; the
  streamer is modelled for any function of that signature.
\<close>

type_synonym dejitter_fn = "real list \<Rightarrow> real \<Rightarrow> real \<Rightarrow> real list"

definition u_dejitter_timestamps ::
  "dejitter_fn \<Rightarrow> real list \<Rightarrow> lslstreamer \<Rightarrow> real list outcome \<times> lslstreamer" where
  "u_dejitter_timestamps dejitter_timestamps timestamps st =
     then_do (getitem (lsl_data st) ''time'', st) (\<lambda>col st.
     then_do (last_item col, st) (\<lambda>last_time st.
       (Returns (dejitter_timestamps timestamps (lsl_sfreq st) last_time), st)))"

text \<open>
  What one call of \<^verbatim>\<open>self._pull_chunk()\<close> delivers: the samples and their timestamps
  (both empty after a timeout), or a \<open>SerialException\<close> of the transport.
\<close>

datatype pull = Chunk "real list list" "real list" | Disconnected

text \<open>The body of the \<^verbatim>\<open>while self.proceed\<close> loop of \<^verbatim>\<open>run\<close>.\<close>

fun run_body :: "dejitter_fn \<Rightarrow> pull \<Rightarrow> lslstreamer \<Rightarrow> unit outcome \<times> lslstreamer" where
  "run_body dej Disconnected st = (Raises SerialException, st)"
| "run_body dej (Chunk samples timestamps) st =
     (if timestamps \<noteq> [] then
        then_do (if lsl_dejitter st then u_dejitter_timestamps dej timestamps st
                 else (Returns timestamps, st)) (\<lambda>timestamps st.
          case update timestamps samples (lsl_data st) of
            (r, d) \<Rightarrow> (r, st\<lparr>lsl_data := d\<rparr>))
      else (Returns (), st))"

text \<open>
  \<^verbatim>\<open>run\<close> on the pulls that the inlet delivers, in order. The loop ends when \<^verbatim>\<open>proceed\<close>
  is false at the top of an iteration, a \<open>SerialException\<close> is caught outside the loop, and
  any other exception leaves \<^verbatim>\<open>run\<close>. \<open>None\<close>: the loop is still running when the listed
  pulls are used up.
\<close>

fun run ::
  "dejitter_fn \<Rightarrow> pull list \<Rightarrow> lslstreamer \<Rightarrow> (unit outcome \<times> lslstreamer) option" where
  "run dej [] st = (if lsl_proceed st then None else Some (Returns (), st))"
| "run dej (p # ps) st =
     (if lsl_proceed st then
        (case run_body dej p st of
           (Returns _, st') \<Rightarrow> run dej ps st'
         | (Raises SerialException, st') \<Rightarrow> Some (Returns (), st')
         | r \<Rightarrow> Some r)
      else Some (Returns (), st))"

section \<open>Buffers used as inputs\<close>

text \<open>
  \<open>configured names n\<close> carries the attributes as lines 29-33, 65-70 and 85 of the module
  assign them for channel names \<open>names\<close>, a capacity of \<open>n\<close> samples and recording switched
  on; \<^verbatim>\<open>_data\<close> is not assigned yet. \<open>ready names n\<close> is that object after
  \<^verbatim>\<open>initialize()\<close>.
\<close>

definition configured :: "string list \<Rightarrow> int \<Rightarrow> timeseries" where
  "configured names n =
     \<lparr>u_lock = Some False, u_data = None, u_dtype = Some names, sfreq = Some 1,
      n_samples = Some n, u_count = Some n, u_file = Some [], updated = Some False,
      metadata = Some None, trace = []\<rparr>"

definition ready :: "string list \<Rightarrow> int \<Rightarrow> timeseries" where
  "ready names n = snd (initialize (configured names n))"

section \<open>Basic facts\<close>

lemma then_do_simps [simp]:
  "then_do (Returns a, s) f = f a s"
  "then_do (Raises e, s) f = (Raises e, s)"
  "then_do (Blocks, s) f = (Blocks, s)"
  by (simp_all add: then_do_def)

lemma logged_simps [simp]:
  "u_lock (logged a s) = u_lock s" "u_data (logged a s) = u_data s"
  "u_dtype (logged a s) = u_dtype s" "sfreq (logged a s) = sfreq s"
  "n_samples (logged a s) = n_samples s" "u_count (logged a s) = u_count s"
  "u_file (logged a s) = u_file s" "updated (logged a s) = updated s"
  "metadata (logged a s) = metadata s"
  "trace (logged a s) = trace s @ [(a, u_lock s = Some True)]"
  by (simp_all add: logged_def)

lemma data_held: "u_lock s = Some True \<Longrightarrow> data s = (Blocks, s)"
  by (simp add: data_def with_lock_def)

lemma slice_from_zero: "slice_from (- 0) xs = xs"
  by (simp add: slice_from_def slice_bound_def)

text \<open>The trim expression \<^verbatim>\<open>xs[-n:]\<close> on its own keeps the last \<open>n\<close> rows when \<open>n\<close> is positive.\<close>

lemma slice_from_last:
  "length d = n \<Longrightarrow> 0 < n \<Longrightarrow> slice_from (- int n) (d @ new) = drop (length new) (d @ new)"
  by (simp add: slice_from_def slice_bound_def)

lemma length_slice_from_last:
  "length d = n \<Longrightarrow> 0 < n \<Longrightarrow> length (slice_from (- int n) (d @ new)) = n"
  by (simp add: slice_from_def slice_bound_def)

lemma initialize_length:
  assumes "u_lock s = Some False" "n_samples s = Some n" "0 \<le> n" "u_dtype s = Some names"
  shows "initialize s =
    (Returns (), s\<lparr>u_data := Some (zeros (nat n) names),
       trace := trace s @ [(Acquire, False), (WriteData, True), (Release, True)]\<rparr>)"
    and "int (length (zeros (nat n) names)) = n"
  using assms by (simp_all add: initialize_def with_lock_def logged_def zeros_def)

lemma ready_eq:
  "0 \<le> n \<Longrightarrow> ready names n =
     (configured names n)\<lparr>u_data := Some (zeros (nat n) names),
        trace := [(Acquire, False), (WriteData, True), (Release, True)]\<rparr>"
  by (simp add: ready_def configured_def initialize_def with_lock_def logged_def)

section \<open>\<^verbatim>\<open>_append\<close> never returns\<close>

text \<open>
  \<^verbatim>\<open>_append\<close> evaluates the property \<^verbatim>\<open>self.data\<close> inside its own \<^verbatim>\<open>with self._lock\<close>
  block, and the property takes the same lock again. Whatever the state of the object,
  \<^verbatim>\<open>_append\<close> either raises \<open>AttributeError\<close> or blocks, and so does \<^verbatim>\<open>update\<close> once its
  arguments are accepted.
\<close>

lemma u_append_eq:
  "u_append new s =
     (case u_lock s of
        None \<Rightarrow> (Raises AttributeError, s)
      | Some True \<Rightarrow> (Blocks, s)
      | Some False \<Rightarrow>
          (case u_data s of
             None \<Rightarrow> (Raises AttributeError,
                       s\<lparr>trace := trace s @ [(Acquire, False), (Release, True)]\<rparr>)
           | Some d \<Rightarrow> (Blocks,
                         s\<lparr>u_lock := Some True, u_data := Some (d @ new),
                           trace := trace s @
                             [(Acquire, False), (ReadData, True), (WriteData, True)]\<rparr>)))"
  by (simp add: u_append_def with_lock_def data_held logged_def
      split: option.splits bool.splits)

lemma u_append_outcome:
  "fst (u_append new s) = Blocks \<or> fst (u_append new s) = Raises AttributeError"
  by (simp add: u_append_eq split: option.splits bool.splits)

lemma u_append_count: "u_count (snd (u_append new s)) = u_count s"
  by (simp add: u_append_eq split: option.splits bool.splits)

lemma u_append_free:
  assumes "u_lock s = Some False" "u_data s = Some d"
  shows "u_append new s =
    (Blocks, s\<lparr>u_lock := Some True, u_data := Some (d @ new),
       trace := trace s @ [(Acquire, False), (ReadData, True), (WriteData, True)]\<rparr>)"
  using assms by (simp add: u_append_def with_lock_def data_held logged_def)

lemma u_append_never_returns: "fst (u_append new s) \<noteq> Returns x"
  by (simp add: u_append_eq split: option.splits bool.splits)

lemma then_do_never:
  assumes "\<And>a s'. fst (f a s') \<noteq> Returns x"
  shows "fst (then_do m f) \<noteq> Returns x"
proof (cases m)
  case (Pair r s')
  then show ?thesis using assms by (cases r) simp_all
qed

lemma then_do_first_never:
  assumes "\<And>a. fst m \<noteq> Returns a"
  shows "fst (then_do m f) \<noteq> Returns x"
proof (cases m)
  case (Pair r s')
  then show ?thesis using assms [of "case r of Returns a \<Rightarrow> a"] by (cases r) simp_all
qed

lemma then_do_stuck:
  assumes "\<And>a. fst m \<noteq> Returns a"
  shows "snd (then_do m f) = snd m"
    and "fst (then_do m f) = (case fst m of Raises e \<Rightarrow> Raises e | _ \<Rightarrow> Blocks)"
proof -
  obtain r s' where m: "m = (r, s')" by (cases m)
  with assms [of "case r of Returns a \<Rightarrow> a"] show "snd (then_do m f) = snd m"
    by (cases r) simp_all
  from m assms [of "case r of Returns a \<Rightarrow> a"]
  show "fst (then_do m f) = (case fst m of Raises e \<Rightarrow> Raises e | _ \<Rightarrow> Blocks)"
    by (cases r) simp_all
qed

lemma update_rows:
  assumes "u_dtype s = Some names" "u_count s = Some c"
    and "list_all (\<lambda>(t, x). length x = length names) (zip timestamps samples)"
  shows "u_count (snd (update timestamps samples s)) =
           Some (c - int (length (zip timestamps samples)))"
    and "fst (update timestamps samples s) = Blocks
           \<or> fst (update timestamps samples s) = Raises AttributeError"
proof -
  let ?new = "zip timestamps samples"
  let ?s1 = "logged ReadCount (set_count (c - int (length ?new)) (logged ReadCount s))"
  let ?m = "u_append (slice_to (int (length ?new) + (c - int (length ?new))) ?new) ?s1"
  have stuck: "\<And>a. fst ?m \<noteq> Returns a" by (rule u_append_never_returns)
  have upd: "update timestamps samples s = then_do ?m (\<lambda>_ s.
     then_do (get_count s) (\<lambda>c2 s.
     then_do (if c2 < 1 then flush_and_reset s else (Returns (), s)) (\<lambda>_ s.
     then_do (u_append (slice_from (int (length ?new) + (c - int (length ?new))) ?new) s) (\<lambda>_ s.
       set_updated s))))"
    using assms by (simp add: update_def u_format_samples_def get_count_def set_count_def)
  show "u_count (snd (update timestamps samples s)) = Some (c - int (length ?new))"
    unfolding upd then_do_stuck(1) [OF stuck] u_append_count by (simp add: set_count_def)
  show "fst (update timestamps samples s) = Blocks
           \<or> fst (update timestamps samples s) = Raises AttributeError"
  proof -
    have "fst ?m = Blocks \<or> fst ?m = Raises AttributeError" by (rule u_append_outcome)
    then show ?thesis unfolding upd then_do_stuck(2) [OF stuck] by (elim disjE) simp_all
  qed
qed

lemma update_never_returns: "fst (update timestamps samples s) \<noteq> Returns x"
  unfolding update_def
  by (intro then_do_never then_do_first_never u_append_never_returns)

lemma update_well_formed:
  assumes "u_lock s = Some False" "u_data s = Some d" "u_dtype s = Some names"
    and "u_count s = Some c"
    and "list_all (\<lambda>(t, x). length x = length names) (zip timestamps samples)"
  shows "update timestamps samples s =
    (Blocks, s\<lparr>u_lock := Some True,
       u_data := Some (d @ slice_to c (zip timestamps samples)),
       u_count := Some (c - int (length (zip timestamps samples))),
       trace := trace s @ [(ReadCount, False), (WriteCount, False), (ReadCount, False),
                           (Acquire, False), (ReadData, True), (WriteData, True)]\<rparr>)"
  using assms
  by (simp add: update_def u_format_samples_def get_count_def set_count_def u_append_free)

lemma u_append_file: "u_file (snd (u_append new s)) = u_file s"
  by (simp add: u_append_eq split: option.splits bool.splits)

text \<open>
  Hence no call of \<^verbatim>\<open>update\<close> writes to the file: it ends in \<^verbatim>\<open>_format_samples\<close>, at the
  read of \<^verbatim>\<open>_count\<close>, or in its first \<^verbatim>\<open>_append\<close>, before line 104.
\<close>

lemma update_never_flushes: "u_file (snd (update timestamps samples s)) = u_file s"
proof (cases "u_format_samples timestamps samples s")
  case (Pair r s1)
  show ?thesis
  proof (cases r)
    case (Returns new)
    with Pair have s1: "s1 = s"
      by (auto simp: u_format_samples_def Let_def split: option.splits if_splits)
    show ?thesis
    proof (cases "u_count s")
      case None
      with Pair Returns s1 show ?thesis by (simp add: update_def get_count_def)
    next
      case (Some c)
      let ?s2 = "logged ReadCount (set_count (c - int (length new)) (logged ReadCount s))"
      let ?m = "u_append (slice_to (int (length new) + (c - int (length new))) new) ?s2"
      have stuck: "\<And>a. fst ?m \<noteq> Returns a" by (rule u_append_never_returns)
      have upd: "update timestamps samples s = then_do ?m (\<lambda>_ s.
         then_do (get_count s) (\<lambda>c2 s.
         then_do (if c2 < 1 then flush_and_reset s else (Returns (), s)) (\<lambda>_ s.
         then_do (u_append (slice_from (int (length new) + (c - int (length new))) new) s)
           (\<lambda>_ s. set_updated s))))"
        using Pair Returns s1 Some by (simp add: update_def get_count_def set_count_def)
      show ?thesis
        unfolding upd then_do_stuck(1) [OF stuck] u_append_file by (simp add: set_count_def)
    qed
  next
    case (Raises e)
    with Pair have "s1 = s"
      by (auto simp: u_format_samples_def Let_def split: option.splits if_splits)
    with Pair Raises show ?thesis by (simp add: update_def)
  next
    case Blocks
    with Pair show ?thesis
      by (auto simp: u_format_samples_def Let_def split: option.splits if_splits)
  qed
qed

section \<open>The flush and the capacity\<close>

text \<open>
  \<^verbatim>\<open>_write_to_file\<close> on a buffer whose lock is free: the lock is taken, the window is
  handed to \<^verbatim>\<open>np.savetxt\<close> and the lock is released, whether \<^verbatim>\<open>np.savetxt\<close> returns (empty
  window) or raises (any other window). The file is the same afterwards.
\<close>

lemma u_write_to_file_free:
  assumes "u_lock s = Some False" "u_file s = Some f" "u_data s = Some d"
  shows "u_write_to_file s =
    (if d = [] then Returns () else Raises TypeError,
     s\<lparr>trace := trace s @ [(Acquire, False), (ReadData, True), (Savetxt, True),
                           (Release, True)]\<rparr>)"
proof -
  have "s\<lparr>u_file := Some f\<rparr> = s" using assms(2) by simp
  then show ?thesis using assms
    by (simp add: u_write_to_file_def with_lock_def savetxt_def logged_def)
qed

text \<open>
  \<^verbatim>\<open>int\<close> of a product strictly between \<open>-1\<close> and \<open>1\<close> is zero, and the constructor has no
  check of the capacity; \<^verbatim>\<open>initialize()\<close> accepts a capacity of zero and allocates an empty
  window.
\<close>

lemma py_int_zero: "- 1 < x \<Longrightarrow> x < 1 \<Longrightarrow> py_int x = 0"
  by (simp add: py_int_def floor_eq_iff ceiling_eq_iff)

lemma initialize_zero_capacity:
  assumes "u_lock s = Some False" "n_samples s = Some 0" "u_dtype s = Some names"
  shows "fst (initialize s) = Returns ()" and "u_data (snd (initialize s)) = Some []"
  using initialize_length(1) [of s 0 names] assms by (simp_all add: zeros_def)

section \<open>The streaming loop with dejittering\<close>

lemma run_body_dejitter:
  "lsl_dejitter st \<Longrightarrow> timestamps \<noteq> [] \<Longrightarrow>
     run_body dej (Chunk samples timestamps) st = (Raises TypeError, st)"
  by (simp add: u_dejitter_timestamps_def getitem_def)

section \<open>The claims\<close>

subsection \<open>C1: a chunk that fills the window up to the flush boundary\<close>

text \<open>
  C1 describes \<^verbatim>\<open>update\<close> as: decrement the counter by the chunk size, append the first
  \<open>c\<close> rows, flush the window of \<open>n_samples\<close> rows and reset the counter when it has dropped
  below one, append the rest; a chunk of exactly \<open>c\<close> rows gives one flush and a counter of
  \<open>n_samples\<close>. On the code, with a window of four zero rows, a counter of four and a
  chunk of four rows, the counter is decremented to zero and the four rows are
  concatenated, but the call then blocks inside \<^verbatim>\<open>_append\<close>: nothing is written to the
  file, the counter stays at zero and the window is left with eight rows.
\<close>

theorem update_chunk_equal_to_counter:
  "update [1, 2, 3, 4] [[1], [2], [3], [4]] (ready [''ch''] 4) =
     (Blocks,
      \<lparr>u_lock = Some True,
       u_data = Some [(0, [0]), (0, [0]), (0, [0]), (0, [0]),
                      (1, [1]), (2, [2]), (3, [3]), (4, [4])],
       u_dtype = Some [''ch''], sfreq = Some 1, n_samples = Some 4,
       u_count = Some 0, u_file = Some [], updated = Some False, metadata = Some None,
       trace = [(Acquire, False), (WriteData, True), (Release, True),
                (ReadCount, False), (WriteCount, False), (ReadCount, False),
                (Acquire, False), (ReadData, True), (WriteData, True)]\<rparr>)"
  by (simp add: ready_eq update_well_formed configured_def zeros_def slice_to_def
      slice_bound_def eval_nat_numeral)

subsection \<open>C2: the window keeps its length\<close>

text \<open>
  C2 says that \<^verbatim>\<open>initialize()\<close> gives the window \<open>n_samples\<close> rows and that the window has
  \<open>n_samples\<close> rows again after every \<^verbatim>\<open>update\<close>, also for a chunk longer than the window.
  \<^verbatim>\<open>initialize()\<close> does establish the length (four rows below). \<^verbatim>\<open>update\<close> with a chunk
  of six rows does not return: it blocks in its first \<^verbatim>\<open>_append\<close>, after the concatenation
  and before the trim, with eight rows in the window.
\<close>

theorem update_oversized_chunk:
  "u_data (ready [''ch''] 4) = Some [(0, [0]), (0, [0]), (0, [0]), (0, [0])]
   \<and> update [1, 2, 3, 4, 5, 6] [[1], [2], [3], [4], [5], [6]] (ready [''ch''] 4) =
     (Blocks,
      \<lparr>u_lock = Some True,
       u_data = Some [(0, [0]), (0, [0]), (0, [0]), (0, [0]),
                      (1, [1]), (2, [2]), (3, [3]), (4, [4])],
       u_dtype = Some [''ch''], sfreq = Some 1, n_samples = Some 4,
       u_count = Some (- 2), u_file = Some [], updated = Some False, metadata = Some None,
       trace = [(Acquire, False), (WriteData, True), (Release, True),
                (ReadCount, False), (WriteCount, False), (ReadCount, False),
                (Acquire, False), (ReadData, True), (WriteData, True)]\<rparr>)"
  by (simp add: ready_eq update_well_formed configured_def zeros_def slice_to_def
      slice_bound_def eval_nat_numeral)

subsection \<open>C3: the constructor\<close>

text \<open>
  C3 says, among other things, that \<^verbatim>\<open>_lock\<close>, \<^verbatim>\<open>n_samples\<close> and \<^verbatim>\<open>_dtype\<close> are all assigned
  only after \<^verbatim>\<open>Data.__init__\<close> has returned. For \<^verbatim>\<open>_lock\<close> that is not so:
  \<^verbatim>\<open>Data.__init__\<close> assigns it itself, in its last statement. Run on an object without
  attributes, with an \<^verbatim>\<open>initialize\<close> that returns at once (\<open>Pair (Returns ())\<close>),
  \<^verbatim>\<open>Data.__init__\<close> returns with \<^verbatim>\<open>_lock\<close> assigned, and with \<^verbatim>\<open>n_samples\<close> and \<^verbatim>\<open>_dtype\<close>
  still unassigned.
\<close>

theorem Data_init_assigns_lock:
  "Data_init (Pair (Returns ())) None fresh =
     (Returns (),
      \<lparr>u_lock = Some False, u_data = None, u_dtype = None, sfreq = None,
       n_samples = None, u_count = None, u_file = None, updated = Some False,
       metadata = Some None, trace = []\<rparr>)"
  by (simp add: Data_init_def fresh_def)

text \<open>
  C3 as the code has it: constructing a \<^verbatim>\<open>TimeSeries\<close> always raises \<open>AttributeError\<close> and
  assigns no attribute, whatever the arguments, the rounding of the product and the file
  system are. \<^verbatim>\<open>Data.__init__\<close> calls \<^verbatim>\<open>initialize()\<close> on an object without attributes, and
  \<^verbatim>\<open>TimeSeries.initialize\<close> fails on a missing \<^verbatim>\<open>_lock\<close>, and with a lock on a missing
  \<^verbatim>\<open>n_samples\<close> or \<^verbatim>\<open>_dtype\<close>. \<^verbatim>\<open>Data.__init__\<close> assigns \<^verbatim>\<open>_lock\<close> itself, after the call of
  \<^verbatim>\<open>initialize()\<close>, and neither \<^verbatim>\<open>n_samples\<close> nor \<^verbatim>\<open>_dtype\<close>. The lines after
  \<^verbatim>\<open>Data.__init__\<close> never return either, on whatever object they run: they raise
  \<open>ValueError\<close> from \<^verbatim>\<open>np.dtype\<close> when a channel name is repeated, and otherwise
  \<open>AttributeError\<close> at the assignment to the property \<^verbatim>\<open>window\<close>.
\<close>

theorem TimeSeries_init_raises:
  "TimeSeries_init fmul opened ch_names sf w record md fresh = (Raises AttributeError, fresh)
   \<and> initialize (s\<lparr>u_lock := None\<rparr>) = (Raises AttributeError, s\<lparr>u_lock := None\<rparr>)
   \<and> fst (initialize (s\<lparr>u_lock := Some False, n_samples := None\<rparr>)) = Raises AttributeError
   \<and> fst (initialize (s\<lparr>u_lock := Some False, u_dtype := None\<rparr>)) = Raises AttributeError
   \<and> Data_init (Pair (Returns ())) md s =
       (Returns (), s\<lparr>metadata := Some md, updated := Some False, u_lock := Some False\<rparr>)
   \<and> fst (TimeSeries_init_rest fmul opened ch_names sf w record s) =
       Raises (if distinct ch_names then AttributeError else ValueError)"
  by (simp add: TimeSeries_init_def Data_init_def initialize_def with_lock_def fresh_def
      TimeSeries_init_rest_def channels_dtype_def set_window_def split: option.splits)

subsection \<open>C4: timestamps and samples of different lengths\<close>

text \<open>
  C4 says that \<^verbatim>\<open>update\<close> with \<^verbatim>\<open>len(timestamps) != len(samples)\<close> fails and changes
  neither the window nor the counter. The code has no length check: with three timestamps
  and two samples \<^verbatim>\<open>_format_samples\<close> returns the two zipped rows, \<^verbatim>\<open>update\<close> raises
  nothing, the counter goes from four to two and the two rows are concatenated to the
  window.
\<close>

theorem update_length_mismatch_counterexample:
  "u_format_samples [1, 2, 3] [[1], [2]] (ready [''ch''] 4)
     = (Returns [(1, [1]), (2, [2])], ready [''ch''] 4)
   \<and> fst (update [1, 2, 3] [[1], [2]] (ready [''ch''] 4)) = Blocks
   \<and> u_count (ready [''ch''] 4) = Some 4
   \<and> u_count (snd (update [1, 2, 3] [[1], [2]] (ready [''ch''] 4))) = Some 2
   \<and> u_data (ready [''ch''] 4) = Some [(0, [0]), (0, [0]), (0, [0]), (0, [0])]
   \<and> u_data (snd (update [1, 2, 3] [[1], [2]] (ready [''ch''] 4)))
       = Some [(0, [0]), (0, [0]), (0, [0]), (0, [0]), (1, [1]), (2, [2])]"
  by (simp add: ready_eq update_well_formed u_format_samples_def configured_def zeros_def
      slice_to_def slice_bound_def eval_nat_numeral)

text \<open>
  C4 as the code has it: for timestamps and samples of different lengths,
  \<^verbatim>\<open>_format_samples\<close> returns the rows that \<^verbatim>\<open>zip\<close> pairs, as long as each of them has
  one value per channel; \<^verbatim>\<open>update\<close> then raises neither \<open>ValueError\<close> nor \<open>TypeError\<close> and
  decrements the counter by the shorter of the two lengths. A paired row of the wrong
  arity makes \<^verbatim>\<open>update\<close> raise \<open>ValueError\<close> with the object unchanged.
\<close>

theorem update_length_mismatch:
  assumes "length timestamps \<noteq> length samples"
    and "u_dtype s = Some names" and "u_count s = Some c"
  shows "if list_all (\<lambda>(t, x). length x = length names) (zip timestamps samples)
         then u_format_samples timestamps samples s = (Returns (zip timestamps samples), s)
            \<and> fst (update timestamps samples s) \<noteq> Raises ValueError
            \<and> fst (update timestamps samples s) \<noteq> Raises TypeError
            \<and> u_count (snd (update timestamps samples s))
                = Some (c - int (min (length timestamps) (length samples)))
         else update timestamps samples s = (Raises ValueError, s)"
proof (cases "list_all (\<lambda>(t, x). length x = length names) (zip timestamps samples)")
  case True
  from update_rows [OF assms(2,3) True] True assms(2) show ?thesis
    by (auto simp: u_format_samples_def)
next
  case False
  with assms(2) show ?thesis by (simp add: update_def u_format_samples_def)
qed

theorem update_length_mismatch_witness:
  "(let s = ready [''ch''] 4 in
    u_format_samples [1, 2, 3] [[1], [2]] s = (Returns [(1, [1]), (2, [2])], s)
    \<and> u_count (snd (update [1, 2, 3] [[1], [2]] s)) = Some 2)
   \<and> update [1, 2] [[1], [2, 2], [3]] (ready [''ch''] 4) = (Raises ValueError, ready [''ch''] 4)"
proof -
  have a: "u_dtype (ready [''ch''] 4) = Some [''ch'']" "u_count (ready [''ch''] 4) = Some 4"
    by (simp_all add: ready_eq configured_def)
  have l1: "length [1, 2, 3 :: real] \<noteq> length [[1], [2 :: real]]" by simp
  have l2: "length [1, 2 :: real] \<noteq> length [[1], [2, 2], [3 :: real]]" by simp
  from update_length_mismatch [OF l1 a] update_length_mismatch [OF l2 a]
  show ?thesis by (simp add: Let_def)
qed

subsection \<open>C6: what the lock covers\<close>

text \<open>
  C6 says that the lock is held during the whole of \<^verbatim>\<open>update\<close> and that the counter is
  read and written only under the lock. In the log of \<^verbatim>\<open>update\<close> with one row on an
  initialized buffer the counter is read, written and read again with the lock free,
  before \<^verbatim>\<open>_append\<close> acquires it.
\<close>

theorem update_lock_counterexample:
  "trace (ready [''ch''] 4) = [(Acquire, False), (WriteData, True), (Release, True)]
   \<and> trace (snd (update [1] [[1]] (ready [''ch''] 4))) =
       [(Acquire, False), (WriteData, True), (Release, True),
        (ReadCount, False), (WriteCount, False), (ReadCount, False),
        (Acquire, False), (ReadData, True), (WriteData, True)]"
  by (simp add: ready_eq update_well_formed configured_def)

text \<open>
  C6 as the code has it, on a buffer whose lock is free: the property \<^verbatim>\<open>data\<close> acquires the
  lock, copies the window and releases it; \<^verbatim>\<open>_write_to_file\<close> is a critical section of its
  own, which acquires the lock, hands the window to \<^verbatim>\<open>np.savetxt\<close> and releases the lock
  whether \<^verbatim>\<open>np.savetxt\<close> returns or raises, and which blocks when entered with the lock
  held; \<^verbatim>\<open>update\<close> itself does not take the lock: its first accesses are a read, a write
  and a read of the counter with the lock free, followed by the acquisition inside
  \<^verbatim>\<open>_append\<close>.
\<close>

theorem lock_scope:
  assumes "u_lock s = Some False" and "u_data s = Some d" and "u_file s = Some f"
    and "u_dtype s = Some names" and "u_count s = Some c"
    and "list_all (\<lambda>(t, x). length x = length names) (zip timestamps samples)"
  shows "data s =
           (Returns d,
            s\<lparr>trace := trace s @ [(Acquire, False), (ReadData, True), (Release, True)]\<rparr>)
       \<and> u_write_to_file s =
           (if d = [] then Returns () else Raises TypeError,
            s\<lparr>trace := trace s @ [(Acquire, False), (ReadData, True), (Savetxt, True),
                                  (Release, True)]\<rparr>)
       \<and> fst (u_write_to_file (s\<lparr>u_lock := Some True\<rparr>)) = Blocks
       \<and> take 4 (drop (length (trace s)) (trace (snd (update timestamps samples s)))) =
           [(ReadCount, False), (WriteCount, False), (ReadCount, False), (Acquire, False)]"
  using assms u_write_to_file_free [OF assms(1,3,2)]
  by (simp add: data_def u_write_to_file_def with_lock_def logged_def update_well_formed)

theorem lock_scope_witness:
  "data (ready [''ch''] 2) =
     (Returns [(0, [0]), (0, [0])],
      (ready [''ch''] 2)\<lparr>trace := [(Acquire, False), (WriteData, True), (Release, True),
                                     (Acquire, False), (ReadData, True), (Release, True)]\<rparr>)
   \<and> u_write_to_file (ready [''ch''] 2) =
     (Raises TypeError,
      (ready [''ch''] 2)\<lparr>trace := [(Acquire, False), (WriteData, True), (Release, True),
                                     (Acquire, False), (ReadData, True), (Savetxt, True),
                                     (Release, True)]\<rparr>)
   \<and> take 4 (drop 3 (trace (snd (update [1] [[1]] (ready [''ch''] 2))))) =
       [(ReadCount, False), (WriteCount, False), (ReadCount, False), (Acquire, False)]"
proof -
  let ?s = "ready [''ch''] 2"
  have h: "u_lock ?s = Some False" "u_data ?s = Some [(0, [0]), (0, [0])]"
    "u_file ?s = Some []" "u_dtype ?s = Some [''ch'']" "u_count ?s = Some 2"
    "list_all (\<lambda>(t, x). length x = length [''ch'']) (zip [1 :: real] [[1 :: real]])"
    by (simp_all add: ready_eq configured_def zeros_def eval_nat_numeral)
  have t: "trace ?s = [(Acquire, False), (WriteData, True), (Release, True)]"
    by (simp add: ready_eq configured_def)
  from lock_scope [OF h] t show ?thesis by (simp add: numeral_3_eq_3)
qed

subsection \<open>C7: dejittering in the streaming loop\<close>

text \<open>
  C7 says that an iteration with a non-empty chunk and dejittering enabled calls the
  dejitter function with the last stored timestamp and passes the result to \<^verbatim>\<open>update\<close>.
  On the code the anchor is computed as \<^verbatim>\<open>self.data['time'][-1]\<close> on the \<^verbatim>\<open>TimeSeries\<close>
  object, which raises \<open>TypeError\<close>: the iteration ends there, whatever the dejitter
  function is, and the buffer is not touched.
\<close>

theorem run_body_dejitter_raises:
  "run_body dej (Chunk [[1], [2]] [1, 2])
     \<lparr>lsl_data = ready [''ch''] 4, lsl_dejitter = True, lsl_sfreq = 256, lsl_proceed = True\<rparr>
   = (Raises TypeError,
      \<lparr>lsl_data = ready [''ch''] 4, lsl_dejitter = True, lsl_sfreq = 256, lsl_proceed = True\<rparr>)"
  by (rule run_body_dejitter) simp_all

subsection \<open>C8: what a flush writes\<close>

text \<open>
  C8 says that every flush appends one row of text per stored sample, the timestamp
  followed by the channel values. On the code \<^verbatim>\<open>_write_to_file\<close> on an initialized window
  of two rows raises \<open>TypeError\<close> inside \<^verbatim>\<open>np.savetxt\<close> and writes nothing: the dtype nests
  the channel values in one field, so that a row has two top-level fields, the second of
  which is a record and cannot be formatted as a number. The lock is released on the way
  out and the file is as it was.
\<close>

theorem write_to_file_raises:
  "u_write_to_file (ready [''ch''] 2) =
     (Raises TypeError,
      \<lparr>u_lock = Some False, u_data = Some [(0, [0]), (0, [0])],
       u_dtype = Some [''ch''], sfreq = Some 1, n_samples = Some 2,
       u_count = Some 2, u_file = Some [], updated = Some False, metadata = Some None,
       trace = [(Acquire, False), (WriteData, True), (Release, True),
                (Acquire, False), (ReadData, True), (Savetxt, True), (Release, True)]\<rparr>)"
  by (simp add: ready_eq u_write_to_file_free configured_def zeros_def eval_nat_numeral)

subsection \<open>C9: reading the window before it exists\<close>

text \<open>
  C9: on an object on which \<^verbatim>\<open>initialize()\<close> has not run, so that \<^verbatim>\<open>_data\<close> is unassigned,
  reading the property \<^verbatim>\<open>data\<close> raises \<open>NotImplementedError\<close>, whether \<^verbatim>\<open>_lock\<close> is
  assigned or not. The read is made from outside a critical section: the lock, if there is
  one, is free.
\<close>

theorem data_before_initialize:
  assumes "u_data s = None" and "u_lock s \<noteq> Some True"
  shows "fst (data s) = Raises NotImplementedError"
proof (cases "u_lock s")
  case None
  then show ?thesis by (simp add: data_def with_lock_def)
next
  case (Some h)
  with assms(2) have "u_lock s = Some False" by simp
  with assms(1) show ?thesis by (simp add: data_def with_lock_def)
qed

theorem data_before_initialize_witness:
  "fst (data fresh) = Raises NotImplementedError
   \<and> fst (data (configured [''ch''] 4)) = Raises NotImplementedError"
proof -
  have "u_data fresh = None" "u_lock fresh \<noteq> Some True" by (simp_all add: fresh_def)
  moreover have "u_data (configured [''ch''] 4) = None"
    "u_lock (configured [''ch''] 4) \<noteq> Some True" by (simp_all add: configured_def)
  ultimately show ?thesis using data_before_initialize by blast
qed

subsection \<open>C10: a capacity of zero\<close>

text \<open>
  C10 says that nothing keeps the capacity at one or more and that with \<open>n_samples = 0\<close>
  every \<^verbatim>\<open>update\<close> makes the stored window longer, since the trim \<^verbatim>\<open>[-0:]\<close> keeps the whole
  array. The capacity is indeed not checked (\<open>py_int_zero\<close>, \<open>initialize_zero_capacity\<close>)
  and the trim expression keeps everything (\<open>slice_from_zero\<close>), but on the code the
  window does not grow: it is empty after \<^verbatim>\<open>initialize()\<close> and still empty after
  \<^verbatim>\<open>update\<close> with one row, which blocks in its first \<^verbatim>\<open>_append\<close> before the trim is
  evaluated (the cutoff is zero, so that \<^verbatim>\<open>_append\<close> receives no row).
\<close>

theorem update_zero_capacity:
  "u_data (ready [''ch''] 0) = Some []
   \<and> update [1] [[1]] (ready [''ch''] 0) =
     (Blocks,
      \<lparr>u_lock = Some True, u_data = Some [],
       u_dtype = Some [''ch''], sfreq = Some 1, n_samples = Some 0,
       u_count = Some (- 1), u_file = Some [], updated = Some False, metadata = Some None,
       trace = [(Acquire, False), (WriteData, True), (Release, True),
                (ReadCount, False), (WriteCount, False), (ReadCount, False),
                (Acquire, False), (ReadData, True), (WriteData, True)]\<rparr>)"
  by (simp add: ready_eq update_well_formed configured_def zeros_def slice_to_def
      slice_bound_def)

end
